theory Spec2Isabelle
  imports Main "HOL-Library.Word" "HOL-Library.Sublist"
begin

unbundle bit_operations_syntax

section \<open>Bytes, strings and slices\<close>

text \<open>
  A Go \<^verbatim>\<open>[]byte\<close> and a Go \<^verbatim>\<open>string\<close> are both sequences of bytes; the conversions
  \<^verbatim>\<open>string(v)\<close> and \<^verbatim>\<open>[]byte(s)\<close> keep the bytes, so both are byte lists here.
  A string literal of the source is written \<open>str ''...''\<close>.
\<close>

type_synonym byte = "8 word"
type_synonym bytes = "byte list"

definition str :: "string \<Rightarrow> bytes" where
  "str s = map of_char s"

definition CRLF :: bytes where
  "CRLF = [0x0D, 0x0A]"

text \<open>\<^verbatim>\<open>b[n:]\<close>: Go panics when \<open>n\<close> is negative or beyond the length.\<close>

definition slice_from :: "bytes \<Rightarrow> int \<Rightarrow> bytes option" where
  "slice_from b n = (if n < 0 \<or> int (length b) < n then None else Some (drop (nat n) b))"

text \<open>\<^verbatim>\<open>b[lo:hi]\<close>: Go panics when \<open>hi < lo\<close> or \<open>hi\<close> is beyond the slice.\<close>

definition slice_between :: "bytes \<Rightarrow> nat \<Rightarrow> nat \<Rightarrow> bytes option" where
  "slice_between b lo hi = (if hi < lo \<or> length b < hi then None else Some (take (hi - lo) (drop lo b)))"

text \<open>\<^verbatim>\<open>strings.HasSuffix\<close>, \<^verbatim>\<open>strings.HasPrefix\<close> and \<^verbatim>\<open>strings.TrimPrefix\<close>.\<close>

definition HasSuffix :: "bytes \<Rightarrow> bytes \<Rightarrow> bool" where
  "HasSuffix s suf = suffix suf s"

definition HasPrefix :: "bytes \<Rightarrow> bytes \<Rightarrow> bool" where
  "HasPrefix s pre = prefix pre s"

definition TrimPrefix :: "bytes \<Rightarrow> bytes \<Rightarrow> bytes" where
  "TrimPrefix s pre = (if HasPrefix s pre then drop (length pre) s else s)"

text \<open>The decimal digits that \<^verbatim>\<open>fmt.Sprintf("%d", n)\<close> prints for an unsigned number.\<close>

fun decimal :: "nat \<Rightarrow> bytes" where
  "decimal n = (if n < 10 then [of_nat (48 + n)] else decimal (n div 10) @ [of_nat (48 + n mod 10)])"

text \<open>
  \<^verbatim>\<open>binary.BigEndian.PutUint32\<close> and \<^verbatim>\<open>binary.BigEndian.Uint32\<close> on a four-byte
  slice.
\<close>

definition PutUint32 :: "32 word \<Rightarrow> bytes" where
  "PutUint32 v = [ucast (drop_bit 24 v), ucast (drop_bit 16 v), ucast (drop_bit 8 v), ucast v]"

definition Uint32 :: "bytes \<Rightarrow> 32 word" where
  "Uint32 b = push_bit 24 (ucast (b ! 0)) OR push_bit 16 (ucast (b ! 1))
              OR push_bit 8 (ucast (b ! 2)) OR ucast (b ! 3)"

section \<open>The wire format library (protowire)\<close>

text \<open>
  \<^verbatim>\<open>google.golang.org/protobuf/encoding/protowire\<close> is a dependency of the bridge, not
  part of the repository. Its functions are written here as the library documents them:
  a consuming function returns the number of bytes it read, or a negative error code.
  A field number is an \<^verbatim>\<open>int32\<close>, a wire type is the low three bits of the tag.
\<close>

definition errCodeTruncated :: int where "errCodeTruncated = -1"
definition errCodeFieldNumber :: int where "errCodeFieldNumber = -2"
definition errCodeOverflow :: int where "errCodeOverflow = -3"
definition errCodeReserved :: int where "errCodeReserved = -4"
definition errCodeEndGroup :: int where "errCodeEndGroup = -5"
definition errCodeRecursionDepth :: int where "errCodeRecursionDepth = -6"

datatype Type = VarintType | Fixed64Type | BytesType | StartGroupType | EndGroupType
  | Fixed32Type | Reserved6 | Reserved7

text \<open>The conversions between a wire type and its number, \<^verbatim>\<open>Type(x & 7)\<close>.\<close>

definition Type_of :: "nat \<Rightarrow> Type" where
  "Type_of x =
     (if x mod 8 = 0 then VarintType else if x mod 8 = 1 then Fixed64Type
      else if x mod 8 = 2 then BytesType else if x mod 8 = 3 then StartGroupType
      else if x mod 8 = 4 then EndGroupType else if x mod 8 = 5 then Fixed32Type
      else if x mod 8 = 6 then Reserved6 else Reserved7)"

fun Type_num :: "Type \<Rightarrow> nat" where
  "Type_num VarintType = 0"
| "Type_num Fixed64Type = 1"
| "Type_num BytesType = 2"
| "Type_num StartGroupType = 3"
| "Type_num EndGroupType = 4"
| "Type_num Fixed32Type = 5"
| "Type_num Reserved6 = 6"
| "Type_num Reserved7 = 7"

definition DefaultRecursionLimit :: int where "DefaultRecursionLimit = 10000"

text \<open>
  \<^verbatim>\<open>ConsumeVarint\<close> reads at most ten bytes, seven value bits each, least significant
  group first; the tenth byte may only be 0 or 1. The library unrolls the ten steps;
  \<open>i\<close> is the index of the byte being read. The value stays below \<open>2 ^ 64\<close>.
\<close>

fun ConsumeVarint_from :: "nat \<Rightarrow> bytes \<Rightarrow> nat \<times> int" where
  "ConsumeVarint_from i [] = (0, errCodeTruncated)"
| "ConsumeVarint_from i (y # ys) =
     (if i = 9 then (if unat y < 2 then (unat y * 2 ^ 63, 10) else (0, errCodeOverflow))
      else if unat y < 128 then (unat y * 2 ^ (7 * i), int i + 1)
      else (case ConsumeVarint_from (Suc i) ys of
              (v, n) \<Rightarrow> if n < 0 then (0, n) else (v + (unat y - 128) * 2 ^ (7 * i), n)))"

definition ConsumeVarint :: "bytes \<Rightarrow> nat \<times> int" where
  "ConsumeVarint b = ConsumeVarint_from 0 b"

definition DecodeTag :: "nat \<Rightarrow> int \<times> Type" where
  "DecodeTag x =
     (if x div 8 > 2147483647 then (-1, VarintType) else (int (x div 8), Type_of x))"

definition ConsumeTag :: "bytes \<Rightarrow> int \<times> Type \<times> int" where
  "ConsumeTag b =
     (case ConsumeVarint b of
        (v, n) \<Rightarrow>
          if n < 0 then (0, VarintType, n)
          else (case DecodeTag v of
                  (num, typ) \<Rightarrow> if num < 1 then (0, VarintType, errCodeFieldNumber) else (num, typ, n)))"

definition ConsumeFixed32 :: "bytes \<Rightarrow> int" where
  "ConsumeFixed32 b = (if length b < 4 then errCodeTruncated else 4)"

definition ConsumeFixed64 :: "bytes \<Rightarrow> int" where
  "ConsumeFixed64 b = (if length b < 8 then errCodeTruncated else 8)"

definition ConsumeBytes :: "bytes \<Rightarrow> bytes \<times> int" where
  "ConsumeBytes b =
     (case ConsumeVarint b of
        (m, n) \<Rightarrow>
          if n < 0 then ([], n)
          else if m > length (drop (nat n) b) then ([], errCodeTruncated)
          else (take m (drop (nat n) b), n + int m))"

text \<open>
  A successful \<^verbatim>\<open>ConsumeVarint\<close> or \<^verbatim>\<open>ConsumeTag\<close> reads at least one byte and no more
  than there are: the loops below end because of it.
\<close>

lemma ConsumeVarint_from_bounds:
  "ConsumeVarint_from i b = (v, n) \<Longrightarrow> 0 \<le> n \<Longrightarrow> int i + 1 \<le> n \<and> n \<le> int i + int (length b)"
proof (induction b arbitrary: i v n)
  case Nil
  then show ?case by (simp add: errCodeTruncated_def)
next
  case (Cons y ys)
  show ?case
  proof (cases "i = 9")
    case True
    with Cons.prems show ?thesis by (auto simp: errCodeOverflow_def split: if_splits)
  next
    case i9: False
    show ?thesis
    proof (cases "unat y < 128")
      case True
      with i9 Cons.prems show ?thesis by auto
    next
      case False
      obtain v' n' where r: "ConsumeVarint_from (Suc i) ys = (v', n')" by fastforce
      with i9 False Cons.prems have "n = n'" "0 \<le> n'" by (auto split: if_splits)
      with Cons.IH [OF r] show ?thesis by auto
    qed
  qed
qed

lemma ConsumeTag_bounds:
  "ConsumeTag b = (num, t, n) \<Longrightarrow> 0 \<le> n \<Longrightarrow> 1 \<le> n \<and> n \<le> int (length b)"
  using ConsumeVarint_from_bounds [of 0 b]
  by (auto simp: ConsumeTag_def ConsumeVarint_def errCodeFieldNumber_def
      split: prod.splits if_splits)

lemma ConsumeTag_shrinks:
  "(num, t, n) = ConsumeTag b \<Longrightarrow> \<not> n < 0 \<Longrightarrow> length b - nat n < length b"
  using ConsumeTag_bounds [of b num t n] by auto

text \<open>
  \<^verbatim>\<open>ConsumeFieldValue\<close> skips one value of the given wire type. A group is skipped field
  by field up to its end marker, at most \<open>DefaultRecursionLimit\<close> groups deep;
  \<open>consumeGroup\<close> is the library's inner loop, \<open>n0\<close> the length the group started with.
\<close>

function consumeFieldValueD :: "int \<Rightarrow> Type \<Rightarrow> bytes \<Rightarrow> int \<Rightarrow> int"
  and consumeGroup :: "int \<Rightarrow> nat \<Rightarrow> bytes \<Rightarrow> int \<Rightarrow> int" where
  "consumeFieldValueD num typ b depth =
     (case typ of
        VarintType \<Rightarrow> snd (ConsumeVarint b)
      | Fixed32Type \<Rightarrow> ConsumeFixed32 b
      | Fixed64Type \<Rightarrow> ConsumeFixed64 b
      | BytesType \<Rightarrow> snd (ConsumeBytes b)
      | StartGroupType \<Rightarrow>
          (if depth < 0 then errCodeRecursionDepth else consumeGroup num (length b) b depth)
      | EndGroupType \<Rightarrow> errCodeEndGroup
      | _ \<Rightarrow> errCodeReserved)"
| "consumeGroup num n0 b depth =
     (case ConsumeTag b of
        (num2, typ2, n) \<Rightarrow>
          if n < 0 then n
          else if typ2 = EndGroupType then
            (if num \<noteq> num2 then errCodeEndGroup else int n0 - int (length (drop (nat n) b)))
          else (case consumeFieldValueD num2 typ2 (drop (nat n) b) (depth - 1) of
                  m \<Rightarrow> if m < 0 then m else consumeGroup num n0 (drop (nat m) (drop (nat n) b)) depth))"
  by pat_completeness auto
termination
  by (relation "measure (\<lambda>x. case x of Inl (num, t, b, depth) \<Rightarrow> 2 * length b + 1
                                       | Inr (num, n0, b, depth) \<Rightarrow> 2 * length b)")
    (auto dest: ConsumeTag_shrinks)

definition ConsumeFieldValue :: "int \<Rightarrow> Type \<Rightarrow> bytes \<Rightarrow> int" where
  "ConsumeFieldValue num typ b = consumeFieldValueD num typ b DefaultRecursionLimit"

text \<open>
  The appending functions. \<^verbatim>\<open>AppendVarint\<close> writes seven bits per byte, least
  significant group first, with the high bit set on every byte but the last; a tag is
  the varint of \<^verbatim>\<open>num << 3 | typ\<close>; a string or byte value is its length as a varint and
  then its bytes. Each returns the buffer it was given with the new bytes at its end.
\<close>

fun varint :: "nat \<Rightarrow> bytes" where
  "varint v = (if v < 128 then [of_nat v] else of_nat (v mod 128 + 128) # varint (v div 128))"

definition AppendVarint :: "bytes \<Rightarrow> 64 word \<Rightarrow> bytes" where
  "AppendVarint b v = b @ varint (unat v)"

definition EncodeTag :: "nat \<Rightarrow> Type \<Rightarrow> 64 word" where
  "EncodeTag num typ = push_bit 3 (of_nat num) OR of_nat (Type_num typ)"

definition AppendTag :: "bytes \<Rightarrow> nat \<Rightarrow> Type \<Rightarrow> bytes" where
  "AppendTag b num typ = AppendVarint b (EncodeTag num typ)"

definition AppendBytes :: "bytes \<Rightarrow> bytes \<Rightarrow> bytes" where
  "AppendBytes b v = AppendVarint b (of_nat (length v)) @ v"

definition AppendString :: "bytes \<Rightarrow> bytes \<Rightarrow> bytes" where
  "AppendString b v = AppendVarint b (of_nat (length v)) @ v"

section \<open>Frames and responses\<close>

text \<open>
  What a call of the bridge leaves in the \<^verbatim>\<open>http.ResponseWriter\<close>: the status code, the
  content type and the bytes written to the body.
\<close>

record Response =
  StatusCode :: nat
  ContentType :: bytes
  ResponseBody :: bytes

text \<open>The status codes of \<^verbatim>\<open>google.golang.org/grpc/codes\<close> that the bridge names.\<close>

definition InvalidArgument :: nat where "InvalidArgument = 3"
definition Internal :: nat where "Internal = 13"
definition Unauthenticated :: nat where "Unauthenticated = 16"

text \<open>
  A gRPC status as \<^verbatim>\<open>status.FromError\<close> returns it for an error that is not nil: its
  code and its message.
\<close>

record Status =
  Code :: nat
  Message :: bytes

text \<open>
  The two frames of \<^verbatim>\<open>writeSuccess\<close> and the one of \<^verbatim>\<open>writeError\<close>: a flag byte, the
  length as \<^verbatim>\<open>uint32(len(...))\<close> in four big-endian bytes, and the bytes.
\<close>

definition data_frame :: "bytes \<Rightarrow> bytes" where
  "data_frame data = 0x00 # PutUint32 (of_nat (length data)) @ data"

definition trailer_frame :: "bytes \<Rightarrow> bytes" where
  "trailer_frame trailer = 0x80 # PutUint32 (of_nat (length trailer)) @ trailer"

definition error_trailer :: "nat \<Rightarrow> bytes \<Rightarrow> bytes" where
  "error_trailer code msg =
     str ''grpc-status:'' @ decimal code @ CRLF @ str ''grpc-message:'' @ msg @ CRLF"

definition writeError :: "nat \<Rightarrow> bytes \<Rightarrow> Response" where
  "writeError code msg =
     \<lparr>StatusCode = 200, ContentType = str ''application/grpc-web+proto'',
      ResponseBody = trailer_frame (error_trailer code msg)\<rparr>"

definition writeSuccess :: "bytes \<Rightarrow> Response" where
  "writeSuccess data =
     \<lparr>StatusCode = 200, ContentType = str ''application/grpc-web+proto'',
      ResponseBody = data_frame data @ trailer_frame (str ''grpc-status:0'' @ CRLF)\<rparr>"

text \<open>
  The request frame as \<^verbatim>\<open>forward\<close> reads it. \<^verbatim>\<open>int\<close> has 64 bits, so
  \<^verbatim>\<open>int(msgLen)+5\<close> is exact; \<^verbatim>\<open>5+msgLen\<close> is \<^verbatim>\<open>uint32\<close> arithmetic and wraps, and the
  slice expression \<^verbatim>\<open>body[5 : 5+msgLen]\<close> panics when its upper bound is below 5.
\<close>

datatype frame = BodyTooShort | IncompleteFrame | FramePanic | Payload bytes

definition decode_frame :: "bytes \<Rightarrow> frame" where
  "decode_frame body =
     (if length body < 5 then BodyTooShort
      else let msgLen = Uint32 (take 4 (drop 1 body)) in
        if int (unat msgLen) + 5 > int (length body) then IncompleteFrame
        else (case slice_between body 5 (unat (5 + msgLen)) of
                None \<Rightarrow> FramePanic
              | Some payload \<Rightarrow> Payload payload))"

section \<open>Credentials\<close>

text \<open>
  \<^verbatim>\<open>github.com/golang-jwt/jwt/v5\<close> is a dependency. Its parsing of the three segments,
  its signature check and its validation of the registered claims are parameters
  (\<open>jwt_lib\<close>); the order in which \<^verbatim>\<open>ParseWithClaims\<close> runs them, and that an error of
  the key function makes it fail, are as the library documents them.
\<close>

datatype SigningMethod = SigningMethodHMAC | SigningMethodRSA | SigningMethodRSAPSS
  | SigningMethodECDSA | SigningMethodEd25519 | SigningMethodNone

datatype jwt_error = ErrTokenMalformed | ErrTokenUnverifiable | ErrTokenSignatureInvalid
  | ErrTokenInvalidClaims | ErrBadToken

record Claims =
  UserID :: bytes
  ExpiresAt :: int
  IssuedAt :: int

record Token =
  Method :: SigningMethod
  TokenClaims :: Claims
  SigningString :: bytes
  Signature :: bytes
  Valid :: bool

record jwt_lib =
  ParseUnverified :: "bytes \<Rightarrow> jwt_error + Token"
  Verify :: "SigningMethod \<Rightarrow> bytes \<Rightarrow> bytes \<Rightarrow> bytes \<Rightarrow> bool"
  Validate :: "Claims \<Rightarrow> bool"

definition ParseWithClaims ::
  "jwt_lib \<Rightarrow> bytes \<Rightarrow> (Token \<Rightarrow> jwt_error + bytes) \<Rightarrow> jwt_error + Token" where
  "ParseWithClaims J tokenString keyFunc =
     (case ParseUnverified J tokenString of
        Inl e \<Rightarrow> Inl e
      | Inr token \<Rightarrow>
          (case keyFunc token of
             Inl e \<Rightarrow> Inl ErrTokenUnverifiable
           | Inr key \<Rightarrow>
               if Verify J (Method token) (SigningString token) (Signature token) key
               then (if Validate J (TokenClaims token) then Inr (token\<lparr>Valid := True\<rparr>)
                     else Inl ErrTokenInvalidClaims)
               else Inl ErrTokenSignatureInvalid))"

text \<open>The key function of \<^verbatim>\<open>ParseToken\<close>: only an HMAC method gets the secret.\<close>

definition keyfunc :: "bytes \<Rightarrow> Token \<Rightarrow> jwt_error + bytes" where
  "keyfunc secret t = (if Method t = SigningMethodHMAC then Inr secret else Inl ErrBadToken)"

definition ParseToken :: "jwt_lib \<Rightarrow> bytes \<Rightarrow> bytes \<Rightarrow> jwt_error + Claims" where
  "ParseToken J raw secret =
     (case ParseWithClaims J raw (keyfunc secret) of
        Inl err \<Rightarrow> Inl err
      | Inr tok \<Rightarrow> if Valid tok then Inr (TokenClaims tok) else Inl ErrBadToken)"

text \<open>
  The call context: the outgoing metadata that \<^verbatim>\<open>forward\<close> builds, and the value
  stored under \<^verbatim>\<open>middleware.UserIDKey\<close>, if any.
\<close>

record Ctx =
  OutgoingMD :: "(bytes \<times> bytes list) list"
  UserIDKey :: "bytes option"

definition manualAuth :: "jwt_lib \<Rightarrow> bytes \<Rightarrow> Ctx \<Rightarrow> bytes \<Rightarrow> Status + Ctx" where
  "manualAuth J secret ctx authHeader =
     (if authHeader = [] then Inl \<lparr>Code = Unauthenticated, Message = str ''no token''\<rparr>
      else let raw = TrimPrefix authHeader (str ''Bearer '') in
        (case ParseToken J raw secret of
           Inl err \<Rightarrow> Inl \<lparr>Code = Unauthenticated, Message = str ''bad token''\<rparr>
         | Inr claims \<Rightarrow> Inr (ctx\<lparr>UserIDKey := Some (UserID claims)\<rparr>)))"

section \<open>Messages\<close>

text \<open>
  The messages of \<^verbatim>\<open>gen/appointment/v1\<close>, with the fields the bridge reads and writes.
  A pointer to a message is an \<open>option\<close>: \<open>None\<close> is \<^verbatim>\<open>nil\<close>. \<^verbatim>\<open>Seconds\<close> is an
  \<^verbatim>\<open>int64\<close> and \<^verbatim>\<open>Nanos\<close> an \<^verbatim>\<open>int32\<close>. Field names that several messages share carry
  the message as a prefix.
\<close>

record Timestamp =
  Seconds :: "64 word"
  Nanos :: "32 word"

record Appointment =
  Id :: bytes
  Title :: bytes
  Description :: bytes
  StartTime :: "Timestamp option"
  EndTime :: "Timestamp option"
  UserId :: bytes
  Status :: bytes
  Location :: bytes
  AttendeeIds :: "bytes list"
  CreatedAt :: "Timestamp option"
  UpdatedAt :: "Timestamp option"

record LoginRequest =
  login_Email :: bytes
  login_Password :: bytes

record LoginResponse =
  login_Token :: bytes
  login_UserId :: bytes
  login_Name :: bytes

record RegisterRequest =
  register_Email :: bytes
  register_Password :: bytes
  register_Name :: bytes

record RegisterResponse =
  register_UserId :: bytes
  register_Token :: bytes

record ListAppointmentsRequest =
  RangeStart :: "Timestamp option"
  RangeEnd :: "Timestamp option"

record CreateAppointmentRequest =
  create_Title :: bytes
  create_Description :: bytes
  create_StartTime :: "Timestamp option"
  create_EndTime :: "Timestamp option"
  create_Location :: bytes
  create_AttendeeIds :: "bytes list"

record UpdateAppointmentRequest =
  update_Id :: bytes
  update_Title :: bytes
  update_Description :: bytes
  update_StartTime :: "Timestamp option"
  update_EndTime :: "Timestamp option"
  update_Location :: bytes
  update_AttendeeIds :: "bytes list"

record GetAppointmentRequest =
  get_Id :: bytes

record DeleteAppointmentRequest =
  delete_Id :: bytes

text \<open>
  The responses with appointments: \<^verbatim>\<open>ListAppointmentsResponse\<close> is its list
  \<^verbatim>\<open>Appointments\<close> of pointers; the responses of CreateAppointment, GetAppointment and
  UpdateAppointment are their one field \<^verbatim>\<open>Appointment\<close>, a pointer; the response of
  DeleteAppointment is empty.
\<close>

type_synonym ListAppointmentsResponse = "Appointment option list"
type_synonym AppointmentResponse = "Appointment option"

section \<open>The response encoders\<close>

definition appendTimestamp :: "bytes \<Rightarrow> nat \<Rightarrow> Timestamp option \<Rightarrow> bytes" where
  "appendTimestamp out num ts =
     (case ts of
        None \<Rightarrow> out
      | Some t \<Rightarrow>
          let inner = [];
              inner = (if Seconds t \<noteq> 0
                       then AppendVarint (AppendTag inner 1 VarintType) (Seconds t) else inner);
              inner = (if Nanos t \<noteq> 0
                       then AppendVarint (AppendTag inner 2 VarintType) (scast (Nanos t)) else inner);
              out = AppendTag out num BytesType
          in AppendBytes out inner)"

definition appendAppointment :: "bytes \<Rightarrow> nat \<Rightarrow> Appointment option \<Rightarrow> bytes" where
  "appendAppointment out num a =
     (case a of
        None \<Rightarrow> out
      | Some a \<Rightarrow>
          let inner = [];
              inner = AppendTag inner 1 BytesType;
              inner = AppendString inner (Id a);
              inner = AppendTag inner 2 BytesType;
              inner = AppendString inner (Title a);
              inner = AppendTag inner 3 BytesType;
              inner = AppendString inner (Description a);
              inner = appendTimestamp inner 4 (StartTime a);
              inner = appendTimestamp inner 5 (EndTime a);
              inner = AppendTag inner 6 BytesType;
              inner = AppendString inner (UserId a);
              inner = AppendTag inner 7 BytesType;
              inner = AppendString inner (Status a);
              inner = AppendTag inner 8 BytesType;
              inner = AppendString inner (Location a);
              inner = foldl (\<lambda>inner att. AppendString (AppendTag inner 9 BytesType) att)
                        inner (AttendeeIds a);
              inner = appendTimestamp inner 10 (CreatedAt a);
              inner = appendTimestamp inner 11 (UpdatedAt a);
              out = AppendTag out num BytesType
          in AppendBytes out inner)"

text \<open>The response encodings that \<^verbatim>\<open>manualLogin\<close> and \<^verbatim>\<open>manualRegister\<close> write inline.\<close>

definition encodeLoginResponse :: "LoginResponse \<Rightarrow> bytes" where
  "encodeLoginResponse resp =
     (let out = [];
          out = AppendTag out 1 BytesType;
          out = AppendString out (login_Token resp);
          out = AppendTag out 2 BytesType;
          out = AppendString out (login_UserId resp);
          out = AppendTag out 3 BytesType;
          out = AppendString out (login_Name resp)
      in out)"

definition encodeRegisterResponse :: "RegisterResponse \<Rightarrow> bytes" where
  "encodeRegisterResponse resp =
     (let out = [];
          out = AppendTag out 1 BytesType;
          out = AppendString out (register_UserId resp);
          out = AppendTag out 2 BytesType;
          out = AppendString out (register_Token resp)
      in out)"

section \<open>The request decoders\<close>

lemma slice_from_length:
  "slice_from b n = Some b' \<Longrightarrow> length b' = length b - nat n"
  by (auto simp: slice_from_def split: if_splits)

lemma slice_after_tag_shrinks:
  "(num, t, n) = ConsumeTag b \<Longrightarrow> \<not> n < 0 \<Longrightarrow> slice_from b n = Some b1
    \<Longrightarrow> slice_from b1 m = Some b2 \<Longrightarrow> length b2 < length b"
proof -
  assume a: "(num, t, n) = ConsumeTag b" "\<not> n < 0"
    and b1: "slice_from b n = Some b1" and b2: "slice_from b1 m = Some b2"
  from a have "length b - nat n < length b" by (rule ConsumeTag_shrinks)
  moreover from b1 have "length b1 = length b - nat n" by (rule slice_from_length)
  moreover from b2 have "length b2 = length b1 - nat m" by (rule slice_from_length)
  ultimately show ?thesis by arith
qed

text \<open>
  \<^verbatim>\<open>parseTimestamp\<close>: the loop over the bytes of a nested timestamp. A tag or an unknown
  value that does not parse ends the loop with what was read so far; the result is
  \<open>None\<close> when the function panics (a slice with a negative bound).
\<close>

function parseTimestamp_loop :: "Timestamp \<Rightarrow> bytes \<Rightarrow> Timestamp option" where
  "parseTimestamp_loop ts b =
     (if length b > 0 then
        (case ConsumeTag b of
           (num, typ, n) \<Rightarrow>
             if n < 0 then Some ts
             else (case slice_from b n of
                     None \<Rightarrow> None
                   | Some b1 \<Rightarrow>
                       if num = 1 \<and> typ = VarintType then
                         (case ConsumeVarint b1 of
                            (v, m) \<Rightarrow>
                              (case slice_from b1 m of
                                 None \<Rightarrow> None
                               | Some b2 \<Rightarrow> parseTimestamp_loop (ts\<lparr>Seconds := of_nat v\<rparr>) b2))
                       else if num = 2 \<and> typ = VarintType then
                         (case ConsumeVarint b1 of
                            (v, m) \<Rightarrow>
                              (case slice_from b1 m of
                                 None \<Rightarrow> None
                               | Some b2 \<Rightarrow> parseTimestamp_loop (ts\<lparr>Nanos := of_nat v\<rparr>) b2))
                       else
                         (case ConsumeFieldValue num typ b1 of
                            m \<Rightarrow>
                              if m < 0 then Some ts
                              else (case slice_from b1 m of
                                      None \<Rightarrow> None
                                    | Some b2 \<Rightarrow> parseTimestamp_loop ts b2))))
      else Some ts)"
  by pat_completeness auto
termination
  by (relation "measure (\<lambda>(ts, b). length b)") (auto dest: slice_after_tag_shrinks)

definition parseTimestamp :: "bytes \<Rightarrow> Timestamp option" where
  "parseTimestamp b = parseTimestamp_loop \<lparr>Seconds = 0, Nanos = 0\<rparr> b"

text \<open>
  The decoding loop that the seven \<^verbatim>\<open>manual...\<close> functions share. \<open>known\<close> is the
  chain of \<^verbatim>\<open>num == k && typ == protowire.BytesType\<close> branches of one function: for a
  field it knows, the assignment to make with the bytes of the value (\<open>None\<close> when the
  assignment panics). These branches slice the payload by the result of
  \<^verbatim>\<open>ConsumeBytes\<close> without looking at its sign. \<open>checked\<close> says whether the last branch
  tests \<^verbatim>\<open>n < 0\<close> after \<^verbatim>\<open>ConsumeFieldValue\<close> (Login, Register, ListAppointments,
  CreateAppointment) or slices at once (GetAppointment, UpdateAppointment,
  DeleteAppointment).
\<close>

datatype 'r decoded = Decoded 'r | ParseError | Panic

function decode_loop ::
  "(int \<Rightarrow> Type \<Rightarrow> (bytes \<Rightarrow> 'r \<Rightarrow> 'r option) option) \<Rightarrow> bool \<Rightarrow> 'r \<Rightarrow> bytes \<Rightarrow> 'r decoded" where
  "decode_loop known checked req payload =
     (if length payload > 0 then
        (case ConsumeTag payload of
           (num, typ, n) \<Rightarrow>
             if n < 0 then ParseError
             else (case slice_from payload n of
                     None \<Rightarrow> Panic
                   | Some payload1 \<Rightarrow>
                       (case known num typ of
                          Some assign \<Rightarrow>
                            (case ConsumeBytes payload1 of
                               (v, m) \<Rightarrow>
                                 (case assign v req of
                                    None \<Rightarrow> Panic
                                  | Some req1 \<Rightarrow>
                                      (case slice_from payload1 m of
                                         None \<Rightarrow> Panic
                                       | Some payload2 \<Rightarrow> decode_loop known checked req1 payload2)))
                        | None \<Rightarrow>
                            (case ConsumeFieldValue num typ payload1 of
                               m \<Rightarrow>
                                 if checked \<and> m < 0 then ParseError
                                 else (case slice_from payload1 m of
                                         None \<Rightarrow> Panic
                                       | Some payload2 \<Rightarrow> decode_loop known checked req payload2)))))
      else Decoded req)"
  by pat_completeness auto
termination
  by (relation "measure (\<lambda>(known, checked, req, payload). length payload)")
    (auto dest: slice_after_tag_shrinks)

definition LoginRequest_fields ::
  "int \<Rightarrow> Type \<Rightarrow> (bytes \<Rightarrow> LoginRequest \<Rightarrow> LoginRequest option) option" where
  "LoginRequest_fields num typ =
     (if num = 1 \<and> typ = BytesType then Some (\<lambda>v req. Some (req\<lparr>login_Email := v\<rparr>))
      else if num = 2 \<and> typ = BytesType then Some (\<lambda>v req. Some (req\<lparr>login_Password := v\<rparr>))
      else None)"

definition RegisterRequest_fields ::
  "int \<Rightarrow> Type \<Rightarrow> (bytes \<Rightarrow> RegisterRequest \<Rightarrow> RegisterRequest option) option" where
  "RegisterRequest_fields num typ =
     (if num = 1 \<and> typ = BytesType then Some (\<lambda>v req. Some (req\<lparr>register_Email := v\<rparr>))
      else if num = 2 \<and> typ = BytesType then Some (\<lambda>v req. Some (req\<lparr>register_Password := v\<rparr>))
      else if num = 3 \<and> typ = BytesType then Some (\<lambda>v req. Some (req\<lparr>register_Name := v\<rparr>))
      else None)"

definition ListAppointmentsRequest_fields ::
  "int \<Rightarrow> Type \<Rightarrow> (bytes \<Rightarrow> ListAppointmentsRequest \<Rightarrow> ListAppointmentsRequest option) option" where
  "ListAppointmentsRequest_fields num typ =
     (if num = 1 \<and> typ = BytesType then
        Some (\<lambda>v req. map_option (\<lambda>ts. req\<lparr>RangeStart := Some ts\<rparr>) (parseTimestamp v))
      else if num = 2 \<and> typ = BytesType then
        Some (\<lambda>v req. map_option (\<lambda>ts. req\<lparr>RangeEnd := Some ts\<rparr>) (parseTimestamp v))
      else None)"

definition CreateAppointmentRequest_fields ::
  "int \<Rightarrow> Type \<Rightarrow> (bytes \<Rightarrow> CreateAppointmentRequest \<Rightarrow> CreateAppointmentRequest option) option" where
  "CreateAppointmentRequest_fields num typ =
     (if num = 1 \<and> typ = BytesType then Some (\<lambda>v req. Some (req\<lparr>create_Title := v\<rparr>))
      else if num = 2 \<and> typ = BytesType then Some (\<lambda>v req. Some (req\<lparr>create_Description := v\<rparr>))
      else if num = 3 \<and> typ = BytesType then
        Some (\<lambda>v req. map_option (\<lambda>ts. req\<lparr>create_StartTime := Some ts\<rparr>) (parseTimestamp v))
      else if num = 4 \<and> typ = BytesType then
        Some (\<lambda>v req. map_option (\<lambda>ts. req\<lparr>create_EndTime := Some ts\<rparr>) (parseTimestamp v))
      else if num = 5 \<and> typ = BytesType then Some (\<lambda>v req. Some (req\<lparr>create_Location := v\<rparr>))
      else if num = 6 \<and> typ = BytesType then
        Some (\<lambda>v req. Some (req\<lparr>create_AttendeeIds := create_AttendeeIds req @ [v]\<rparr>))
      else None)"

definition GetAppointmentRequest_fields ::
  "int \<Rightarrow> Type \<Rightarrow> (bytes \<Rightarrow> GetAppointmentRequest \<Rightarrow> GetAppointmentRequest option) option" where
  "GetAppointmentRequest_fields num typ =
     (if num = 1 \<and> typ = BytesType then Some (\<lambda>v req. Some (req\<lparr>get_Id := v\<rparr>)) else None)"

definition UpdateAppointmentRequest_fields ::
  "int \<Rightarrow> Type \<Rightarrow> (bytes \<Rightarrow> UpdateAppointmentRequest \<Rightarrow> UpdateAppointmentRequest option) option" where
  "UpdateAppointmentRequest_fields num typ =
     (if num = 1 \<and> typ = BytesType then Some (\<lambda>v req. Some (req\<lparr>update_Id := v\<rparr>))
      else if num = 2 \<and> typ = BytesType then Some (\<lambda>v req. Some (req\<lparr>update_Title := v\<rparr>))
      else if num = 3 \<and> typ = BytesType then Some (\<lambda>v req. Some (req\<lparr>update_Description := v\<rparr>))
      else if num = 4 \<and> typ = BytesType then
        Some (\<lambda>v req. map_option (\<lambda>ts. req\<lparr>update_StartTime := Some ts\<rparr>) (parseTimestamp v))
      else if num = 5 \<and> typ = BytesType then
        Some (\<lambda>v req. map_option (\<lambda>ts. req\<lparr>update_EndTime := Some ts\<rparr>) (parseTimestamp v))
      else if num = 6 \<and> typ = BytesType then Some (\<lambda>v req. Some (req\<lparr>update_Location := v\<rparr>))
      else if num = 7 \<and> typ = BytesType then
        Some (\<lambda>v req. Some (req\<lparr>update_AttendeeIds := update_AttendeeIds req @ [v]\<rparr>))
      else None)"

definition DeleteAppointmentRequest_fields ::
  "int \<Rightarrow> Type \<Rightarrow> (bytes \<Rightarrow> DeleteAppointmentRequest \<Rightarrow> DeleteAppointmentRequest option) option" where
  "DeleteAppointmentRequest_fields num typ =
     (if num = 1 \<and> typ = BytesType then Some (\<lambda>v req. Some (req\<lparr>delete_Id := v\<rparr>)) else None)"

section \<open>The bridge\<close>

text \<open>
  The in-process handler: one operation per method, which returns a response or fails
  with a status (what \<^verbatim>\<open>status.FromError\<close> makes of its error).
\<close>

record Handler =
  Login :: "Ctx \<Rightarrow> LoginRequest \<Rightarrow> Status + LoginResponse"
  Register :: "Ctx \<Rightarrow> RegisterRequest \<Rightarrow> Status + RegisterResponse"
  ListAppointments :: "Ctx \<Rightarrow> ListAppointmentsRequest \<Rightarrow> Status + ListAppointmentsResponse"
  CreateAppointment :: "Ctx \<Rightarrow> CreateAppointmentRequest \<Rightarrow> Status + AppointmentResponse"
  GetAppointment :: "Ctx \<Rightarrow> GetAppointmentRequest \<Rightarrow> Status + AppointmentResponse"
  UpdateAppointment :: "Ctx \<Rightarrow> UpdateAppointmentRequest \<Rightarrow> Status + AppointmentResponse"
  DeleteAppointment :: "Ctx \<Rightarrow> DeleteAppointmentRequest \<Rightarrow> Status + unit"

text \<open>
  \<open>conn\<close> is the backend transport: called with a context, a method path and the bytes
  of a request, it returns the bytes of the response or fails with a status.
  \<open>direct\<close> is \<open>None\<close> when the bridge was made without a handler.
\<close>

record Bridge =
  conn :: "Ctx \<Rightarrow> bytes \<Rightarrow> bytes \<Rightarrow> Status + bytes"
  direct :: "Handler option"
  secret :: bytes

text \<open>
  The request as \<^verbatim>\<open>forward\<close> reads it: the path, the values of the
  \<^verbatim>\<open>Authorization\<close> header, and the body (\<open>None\<close> when reading it failed).
\<close>

record Request =
  URLPath :: bytes
  Authorization :: "bytes list"
  Body :: "bytes option"

text \<open>\<^verbatim>\<open>r.Header.Get\<close>: the first value of the header, or the empty string.\<close>

definition HeaderGet :: "bytes list \<Rightarrow> bytes" where
  "HeaderGet vals = (case vals of [] \<Rightarrow> [] | v # _ \<Rightarrow> v)"

text \<open>
  What a run of the bridge does besides writing: the calls it makes to the handler and
  to the backend, in order, with their arguments. A run ends with a response written or
  with a panic.
\<close>

datatype call =
    CallLogin Ctx LoginRequest
  | CallRegister Ctx RegisterRequest
  | CallListAppointments Ctx ListAppointmentsRequest
  | CallCreateAppointment Ctx CreateAppointmentRequest
  | CallGetAppointment Ctx GetAppointmentRequest
  | CallUpdateAppointment Ctx UpdateAppointmentRequest
  | CallDeleteAppointment Ctx DeleteAppointmentRequest
  | CallInvoke Ctx bytes bytes

datatype outcome = Wrote Response | Panicked

text \<open>\<^verbatim>\<open>rawCodec\<close>: the bytes pass through both ways.\<close>

definition rawCodec_Marshal :: "bytes \<Rightarrow> bytes" where
  "rawCodec_Marshal v = v"

definition rawCodec_Unmarshal :: "bytes \<Rightarrow> bytes" where
  "rawCodec_Unmarshal data = [] @ data"

text \<open>
  The seven functions of the direct path. \<open>H\<close> is \<^verbatim>\<open>b.direct\<close>, which is not nil where
  \<^verbatim>\<open>forward\<close> calls them.
\<close>

definition manualLogin :: "Handler \<Rightarrow> Ctx \<Rightarrow> bytes \<Rightarrow> call list \<times> outcome" where
  "manualLogin H ctx payload =
     (case decode_loop LoginRequest_fields True \<lparr>login_Email = [], login_Password = []\<rparr> payload of
        ParseError \<Rightarrow> ([], Wrote (writeError InvalidArgument (str ''parse error'')))
      | Panic \<Rightarrow> ([], Panicked)
      | Decoded req \<Rightarrow>
          (case Login H ctx req of
             Inl st \<Rightarrow> ([CallLogin ctx req], Wrote (writeError (Code st) (Message st)))
           | Inr resp \<Rightarrow> ([CallLogin ctx req], Wrote (writeSuccess (encodeLoginResponse resp)))))"

definition manualRegister :: "Handler \<Rightarrow> Ctx \<Rightarrow> bytes \<Rightarrow> call list \<times> outcome" where
  "manualRegister H ctx payload =
     (case decode_loop RegisterRequest_fields True
             \<lparr>register_Email = [], register_Password = [], register_Name = []\<rparr> payload of
        ParseError \<Rightarrow> ([], Wrote (writeError InvalidArgument (str ''parse error'')))
      | Panic \<Rightarrow> ([], Panicked)
      | Decoded req \<Rightarrow>
          (case Register H ctx req of
             Inl st \<Rightarrow> ([CallRegister ctx req], Wrote (writeError (Code st) (Message st)))
           | Inr resp \<Rightarrow> ([CallRegister ctx req], Wrote (writeSuccess (encodeRegisterResponse resp)))))"

definition manualListAppointments ::
  "jwt_lib \<Rightarrow> bytes \<Rightarrow> Handler \<Rightarrow> Ctx \<Rightarrow> bytes \<Rightarrow> bytes \<Rightarrow> call list \<times> outcome" where
  "manualListAppointments J sec H ctx payload authHeader =
     (case manualAuth J sec ctx authHeader of
        Inl st \<Rightarrow> ([], Wrote (writeError (Code st) (Message st)))
      | Inr ctx \<Rightarrow>
          (case decode_loop ListAppointmentsRequest_fields True
                  \<lparr>RangeStart = None, RangeEnd = None\<rparr> payload of
             ParseError \<Rightarrow> ([], Wrote (writeError InvalidArgument (str ''parse error'')))
           | Panic \<Rightarrow> ([], Panicked)
           | Decoded req \<Rightarrow>
               (case ListAppointments H ctx req of
                  Inl st \<Rightarrow> ([CallListAppointments ctx req], Wrote (writeError (Code st) (Message st)))
                | Inr resp \<Rightarrow>
                    ([CallListAppointments ctx req],
                     Wrote (writeSuccess (foldl (\<lambda>out appt. appendAppointment out 1 appt) [] resp))))))"

definition manualCreateAppointment ::
  "jwt_lib \<Rightarrow> bytes \<Rightarrow> Handler \<Rightarrow> Ctx \<Rightarrow> bytes \<Rightarrow> bytes \<Rightarrow> call list \<times> outcome" where
  "manualCreateAppointment J sec H ctx payload authHeader =
     (case manualAuth J sec ctx authHeader of
        Inl st \<Rightarrow> ([], Wrote (writeError (Code st) (Message st)))
      | Inr ctx \<Rightarrow>
          (case decode_loop CreateAppointmentRequest_fields True
                  \<lparr>create_Title = [], create_Description = [], create_StartTime = None,
                   create_EndTime = None, create_Location = [], create_AttendeeIds = []\<rparr> payload of
             ParseError \<Rightarrow> ([], Wrote (writeError InvalidArgument (str ''parse error'')))
           | Panic \<Rightarrow> ([], Panicked)
           | Decoded req \<Rightarrow>
               (case CreateAppointment H ctx req of
                  Inl st \<Rightarrow> ([CallCreateAppointment ctx req], Wrote (writeError (Code st) (Message st)))
                | Inr resp \<Rightarrow>
                    ([CallCreateAppointment ctx req],
                     Wrote (writeSuccess (appendAppointment [] 1 resp))))))"

definition manualGetAppointment ::
  "jwt_lib \<Rightarrow> bytes \<Rightarrow> Handler \<Rightarrow> Ctx \<Rightarrow> bytes \<Rightarrow> bytes \<Rightarrow> call list \<times> outcome" where
  "manualGetAppointment J sec H ctx payload authHeader =
     (case manualAuth J sec ctx authHeader of
        Inl st \<Rightarrow> ([], Wrote (writeError (Code st) (Message st)))
      | Inr ctx \<Rightarrow>
          (case decode_loop GetAppointmentRequest_fields False \<lparr>get_Id = []\<rparr> payload of
             ParseError \<Rightarrow> ([], Wrote (writeError InvalidArgument (str ''parse error'')))
           | Panic \<Rightarrow> ([], Panicked)
           | Decoded req \<Rightarrow>
               (case GetAppointment H ctx req of
                  Inl st \<Rightarrow> ([CallGetAppointment ctx req], Wrote (writeError (Code st) (Message st)))
                | Inr resp \<Rightarrow>
                    ([CallGetAppointment ctx req],
                     Wrote (writeSuccess (appendAppointment [] 1 resp))))))"

definition manualUpdateAppointment ::
  "jwt_lib \<Rightarrow> bytes \<Rightarrow> Handler \<Rightarrow> Ctx \<Rightarrow> bytes \<Rightarrow> bytes \<Rightarrow> call list \<times> outcome" where
  "manualUpdateAppointment J sec H ctx payload authHeader =
     (case manualAuth J sec ctx authHeader of
        Inl st \<Rightarrow> ([], Wrote (writeError (Code st) (Message st)))
      | Inr ctx \<Rightarrow>
          (case decode_loop UpdateAppointmentRequest_fields False
                  \<lparr>update_Id = [], update_Title = [], update_Description = [],
                   update_StartTime = None, update_EndTime = None, update_Location = [],
                   update_AttendeeIds = []\<rparr> payload of
             ParseError \<Rightarrow> ([], Wrote (writeError InvalidArgument (str ''parse error'')))
           | Panic \<Rightarrow> ([], Panicked)
           | Decoded req \<Rightarrow>
               (case UpdateAppointment H ctx req of
                  Inl st \<Rightarrow> ([CallUpdateAppointment ctx req], Wrote (writeError (Code st) (Message st)))
                | Inr resp \<Rightarrow>
                    ([CallUpdateAppointment ctx req],
                     Wrote (writeSuccess (appendAppointment [] 1 resp))))))"

definition manualDeleteAppointment ::
  "jwt_lib \<Rightarrow> bytes \<Rightarrow> Handler \<Rightarrow> Ctx \<Rightarrow> bytes \<Rightarrow> bytes \<Rightarrow> call list \<times> outcome" where
  "manualDeleteAppointment J sec H ctx payload authHeader =
     (case manualAuth J sec ctx authHeader of
        Inl st \<Rightarrow> ([], Wrote (writeError (Code st) (Message st)))
      | Inr ctx \<Rightarrow>
          (case decode_loop DeleteAppointmentRequest_fields False \<lparr>delete_Id = []\<rparr> payload of
             ParseError \<Rightarrow> ([], Wrote (writeError InvalidArgument (str ''parse error'')))
           | Panic \<Rightarrow> ([], Panicked)
           | Decoded req \<Rightarrow>
               (case DeleteAppointment H ctx req of
                  Inl st \<Rightarrow> ([CallDeleteAppointment ctx req], Wrote (writeError (Code st) (Message st)))
                | Inr resp \<Rightarrow> ([CallDeleteAppointment ctx req], Wrote (writeSuccess [])))))"

text \<open>
  The opaque path at the end of \<^verbatim>\<open>forward\<close>: \<^verbatim>\<open>b.conn.Invoke\<close> with the raw codec.
\<close>

definition invoke_raw :: "Bridge \<Rightarrow> Ctx \<Rightarrow> bytes \<Rightarrow> bytes \<Rightarrow> call list \<times> outcome" where
  "invoke_raw B ctx path payload =
     (case conn B ctx path (rawCodec_Marshal payload) of
        Inl st \<Rightarrow> ([CallInvoke ctx path payload], Wrote (writeError (Code st) (Message st)))
      | Inr data \<Rightarrow> ([CallInvoke ctx path payload], Wrote (writeSuccess (rawCodec_Unmarshal data))))"

text \<open>The metadata that \<^verbatim>\<open>forward\<close> builds from the header values.\<close>

definition outgoing_context :: "bytes list \<Rightarrow> Ctx" where
  "outgoing_context vals =
     \<lparr>OutgoingMD = (if length vals > 0 then [(str ''authorization'', vals)] else []),
      UserIDKey = None\<rparr>"

definition forward :: "jwt_lib \<Rightarrow> Bridge \<Rightarrow> Request \<Rightarrow> call list \<times> outcome" where
  "forward J B r =
     (case Body r of
        None \<Rightarrow> ([], Wrote (writeError Internal (str ''read body failed'')))
      | Some body \<Rightarrow>
          (case decode_frame body of
             BodyTooShort \<Rightarrow> ([], Wrote (writeError InvalidArgument (str ''body too short'')))
           | IncompleteFrame \<Rightarrow> ([], Wrote (writeError InvalidArgument (str ''incomplete frame'')))
           | FramePanic \<Rightarrow> ([], Panicked)
           | Payload payload \<Rightarrow>
               let ctx = outgoing_context (Authorization r);
                   path = URLPath r;
                   authHeader = HeaderGet (Authorization r)
               in (case direct B of
                     None \<Rightarrow> invoke_raw B ctx path payload
                   | Some H \<Rightarrow>
                       if HasSuffix path (str ''/Login'') then manualLogin H ctx payload
                       else if HasSuffix path (str ''/Register'') then manualRegister H ctx payload
                       else if HasSuffix path (str ''/ListAppointments'') then
                         manualListAppointments J (secret B) H ctx payload authHeader
                       else if HasSuffix path (str ''/CreateAppointment'') then
                         manualCreateAppointment J (secret B) H ctx payload authHeader
                       else if HasSuffix path (str ''/GetAppointment'') then
                         manualGetAppointment J (secret B) H ctx payload authHeader
                       else if HasSuffix path (str ''/UpdateAppointment'') then
                         manualUpdateAppointment J (secret B) H ctx payload authHeader
                       else if HasSuffix path (str ''/DeleteAppointment'') then
                         manualDeleteAppointment J (secret B) H ctx payload authHeader
                       else invoke_raw B ctx path payload)))"

text \<open>
  The suffixes that \<^verbatim>\<open>forward\<close> tests to choose the direct path, in its order.
\<close>

definition direct_methods :: "bytes list" where
  "direct_methods =
     [str ''/Login'', str ''/Register'', str ''/ListAppointments'', str ''/CreateAppointment'',
      str ''/GetAppointment'', str ''/UpdateAppointment'', str ''/DeleteAppointment'']"

section \<open>The two shapes of a response\<close>


section \<open>Test doubles\<close>

text \<open>
  A token library, a handler and a bridge with fixed answers, for running the bridge on
  concrete requests. The library knows two tokens: \<open>good\<close>, signed with an HMAC method,
  and \<open>rsa\<close>, signed with RSA. The backend echoes the request on the path \<open>/echo\<close> and
  fails with \<open>Unimplemented\<close> (12) on every other path.
\<close>

definition stub_jwt :: jwt_lib where
  "stub_jwt =
     \<lparr>ParseUnverified = (\<lambda>raw.
        if raw = str ''good'' then
          Inr \<lparr>Method = SigningMethodHMAC,
               TokenClaims = \<lparr>UserID = str ''u1'', ExpiresAt = 0, IssuedAt = 0\<rparr>,
               SigningString = [], Signature = [], Valid = False\<rparr>
        else if raw = str ''rsa'' then
          Inr \<lparr>Method = SigningMethodRSA,
               TokenClaims = \<lparr>UserID = str ''u1'', ExpiresAt = 0, IssuedAt = 0\<rparr>,
               SigningString = [], Signature = [], Valid = False\<rparr>
        else Inl ErrTokenMalformed),
      Verify = (\<lambda>m s sig key. True),
      Validate = (\<lambda>c. True)\<rparr>"

definition stub_handler :: Handler where
  "stub_handler =
     \<lparr>Login = (\<lambda>ctx req. Inr \<lparr>login_Token = str ''abc'', login_UserId = str ''u1'', login_Name = str ''Ann''\<rparr>),
      Register = (\<lambda>ctx req. Inl \<lparr>Code = 6, Message = str ''registration failed''\<rparr>),
      ListAppointments = (\<lambda>ctx req. Inr []),
      CreateAppointment = (\<lambda>ctx req. Inr None),
      GetAppointment = (\<lambda>ctx req. Inl \<lparr>Code = 5, Message = str ''not found''\<rparr>),
      UpdateAppointment = (\<lambda>ctx req. Inr None),
      DeleteAppointment = (\<lambda>ctx req. Inr ())\<rparr>"

definition stub_bridge :: Bridge where
  "stub_bridge =
     \<lparr>conn = (\<lambda>ctx path data.
         if path = str ''/echo'' then Inr data
         else Inl \<lparr>Code = 12, Message = str ''unknown method''\<rparr>),
      direct = Some stub_handler, secret = str ''k''\<rparr>"

section \<open>Properties\<close>

declare decode_loop.simps [simp del] parseTimestamp_loop.simps [simp del]
  consumeFieldValueD.simps [simp del] consumeGroup.simps [simp del]
  decimal.simps [simp del] varint.simps [simp del]

subsection \<open>The frame codec\<close>

lemma Uint32_PutUint32: "Uint32 (PutUint32 v) = v"
  unfolding Uint32_def PutUint32_def
  apply simp
  apply (rule bit_word_eqI)
  subgoal for n
    apply (cases "n < 8"; cases "n < 16"; cases "n < 24")
    apply (auto simp add: bit_simps)
    done
  done

lemma length_PutUint32: "length (PutUint32 v) = 4"
  by (simp add: PutUint32_def)

lemma length_data_frame: "length (data_frame P) = 5 + length P"
  by (simp add: data_frame_def length_PutUint32)

lemma declared_length_data_frame:
  "Uint32 (take 4 (drop (Suc 0) (data_frame P))) = of_nat (length P)"
  by (simp add: data_frame_def length_PutUint32 Uint32_PutUint32)




text \<open>
  Within five bytes of the limit the decoder does not return: \<^verbatim>\<open>5+msgLen\<close> is computed
  in \<^verbatim>\<open>uint32\<close> and wraps, so the slice expression panics although the frame passed
  the length test with exact arithmetic just before.
\<close>

lemma decode_frame_wrapped_bound:
  assumes "length P = 2 ^ 32 - 5"
  shows "decode_frame (data_frame P) = FramePanic"
proof -
  have u: "unat (of_nat (length P) :: 32 word) = 2 ^ 32 - 5"
    using assms by (simp add: unat_of_nat)
  have "(5 + of_nat (length P) :: 32 word) = 0"
    using assms by simp
  then show ?thesis
    using u assms
    by (simp add: decode_frame_def Let_def declared_length_data_frame length_data_frame
        slice_between_def)
qed





lemma writeSuccess_record:
  "writeSuccess data =
     \<lparr>StatusCode = 200, ContentType = str ''application/grpc-web+proto'',
      ResponseBody = (0x00 # PutUint32 (of_nat (length data)) @ data)
                     @ (0x80 # PutUint32 15 @ str ''grpc-status:0'' @ CRLF)\<rparr>"
  by (simp add: writeSuccess_def data_frame_def trailer_frame_def str_def CRLF_def)

lemma writeError_record:
  "writeError code msg =
     \<lparr>StatusCode = 200, ContentType = str ''application/grpc-web+proto'',
      ResponseBody =
        0x80 # PutUint32 (of_nat (length
                 (str ''grpc-status:'' @ decimal code @ CRLF @ str ''grpc-message:'' @ msg @ CRLF)))
          @ (str ''grpc-status:'' @ decimal code @ CRLF @ str ''grpc-message:'' @ msg @ CRLF)\<rparr>"
  by (simp add: writeError_def trailer_frame_def error_trailer_def)

subsection \<open>Concrete strings and frames\<close>

lemma str_simps:
  "str [] = []"
  "str (c # cs) = of_char c # str cs"
  by (simp_all add: str_def)

lemma decode_frame_example: "decode_frame [0x00, 0x00, 0x00, 0x00, 0x01, 0x08] = Payload [0x08]"
  by (simp add: decode_frame_def Let_def Uint32_def slice_between_def)

lemma decode_frame_example2:
  "decode_frame [0x00, 0x00, 0x00, 0x00, 0x02, 0x0A, 0x00] = Payload [0x0A, 0x00]"
  by (simp add: decode_frame_def Let_def Uint32_def slice_between_def)

lemma decode_frame_example3:
  "decode_frame [0x80, 0x00, 0x00, 0x00, 0x02, 0x0A, 0x00] = Payload [0x0A, 0x00]"
  by (simp add: decode_frame_def Let_def Uint32_def slice_between_def)

lemma echo_not_direct:
  "\<not> HasSuffix (str ''/echo'') (str ''/Login'')"
  "\<not> HasSuffix (str ''/echo'') (str ''/Register'')"
  "\<not> HasSuffix (str ''/echo'') (str ''/ListAppointments'')"
  "\<not> HasSuffix (str ''/echo'') (str ''/CreateAppointment'')"
  "\<not> HasSuffix (str ''/echo'') (str ''/GetAppointment'')"
  "\<not> HasSuffix (str ''/echo'') (str ''/UpdateAppointment'')"
  "\<not> HasSuffix (str ''/echo'') (str ''/DeleteAppointment'')"
  by (simp_all add: HasSuffix_def str_simps suffix_to_prefix)

subsection \<open>Reading the request frame\<close>

lemma decode_frame_flag: "decode_frame (f1 # rest) = decode_frame (f2 # rest)"
  by (simp add: decode_frame_def Let_def slice_between_def)

lemma decode_frame_short: "length body < 5 \<Longrightarrow> decode_frame body = BodyTooShort"
  by (simp add: decode_frame_def)

lemma decode_frame_incomplete:
  assumes "\<not> length body < 5" and "length body - 5 < unat (Uint32 (take 4 (drop 1 body)))"
  shows "decode_frame body = IncompleteFrame"
proof -
  from assms have "int (length body) < int (unat (Uint32 (take 4 (drop 1 body)))) + 5"
    by arith
  with assms(1) show ?thesis by (simp add: decode_frame_def Let_def)
qed

text \<open>
  Claim C3. A request body with fewer than 5 bytes, or whose four-byte big-endian length
  is more than the bytes that follow the 5-byte header, is answered with an
  \<open>InvalidArgument\<close> trailer, and the run makes no call: neither the backend nor an
  operation of the handler is reached.
\<close>

theorem forward_rejects_malformed_frame:
  assumes "Body r = Some body"
    and "length body < 5 \<or> length body - 5 < unat (Uint32 (take 4 (drop 1 body)))"
  shows "forward J B r =
           ([], Wrote (writeError InvalidArgument
                  (if length body < 5 then str ''body too short'' else str ''incomplete frame'')))"
proof (cases "length body < 5")
  case True
  with assms(1) show ?thesis by (simp add: forward_def decode_frame_short)
next
  case False
  with assms(2) have "decode_frame body = IncompleteFrame"
    by (simp add: decode_frame_incomplete)
  with False assms(1) show ?thesis by (simp add: forward_def)
qed

theorem forward_rejects_malformed_frame_witness:
  "forward stub_jwt stub_bridge
     \<lparr>URLPath = str ''/appointment.v1.ScheduleService/Login'', Authorization = [],
      Body = Some [0x00, 0x00, 0x00, 0x00, 0x03, 0x0A]\<rparr>
   = ([], Wrote (writeError InvalidArgument (str ''incomplete frame'')))
   \<and> forward stub_jwt stub_bridge
     \<lparr>URLPath = str ''/appointment.v1.ScheduleService/Login'', Authorization = [],
      Body = Some [0x00, 0x00, 0x00]\<rparr>
   = ([], Wrote (writeError InvalidArgument (str ''body too short'')))"
  using forward_rejects_malformed_frame [of
      "\<lparr>URLPath = str ''/appointment.v1.ScheduleService/Login'', Authorization = [],
        Body = Some [0x00, 0x00, 0x00, 0x00, 0x03, 0x0A]\<rparr>"
      "[0x00, 0x00, 0x00, 0x00, 0x03, 0x0A]" stub_jwt stub_bridge]
    forward_rejects_malformed_frame [of
      "\<lparr>URLPath = str ''/appointment.v1.ScheduleService/Login'', Authorization = [],
        Body = Some [0x00, 0x00, 0x00]\<rparr>"
      "[0x00, 0x00, 0x00]" stub_jwt stub_bridge]
  by (simp add: Uint32_def)

text \<open>
  Claim C9, as amended. The request frame decoder does not look at the flag byte: two
  request bodies that differ only in their first byte are processed in the same way, so
  a body with the trailer flag \<open>0x80\<close> is read as a data frame like any other.
\<close>

theorem forward_ignores_flag_byte:
  "forward J B (r\<lparr>Body := Some (f1 # rest)\<rparr>) = forward J B (r\<lparr>Body := Some (f2 # rest)\<rparr>)"
  by (cases "decode_frame (f2 # rest)") (simp_all add: forward_def decode_frame_flag [of f1 rest f2])

text \<open>
  Claim C9 as stated fails: the body with the flag \<open>0x80\<close> and the body with the flag
  \<open>0x00\<close> go the same way, to the same backend call and the same response.
\<close>

theorem flag_byte_counterexample:
  "forward stub_jwt stub_bridge
     \<lparr>URLPath = str ''/echo'', Authorization = [],
      Body = Some [0x80, 0x00, 0x00, 0x00, 0x02, 0x0A, 0x00]\<rparr>
   = ([CallInvoke \<lparr>OutgoingMD = [], UserIDKey = None\<rparr> (str ''/echo'') [0x0A, 0x00]],
      Wrote (writeSuccess [0x0A, 0x00]))
   \<and> forward stub_jwt stub_bridge
     \<lparr>URLPath = str ''/echo'', Authorization = [],
      Body = Some [0x00, 0x00, 0x00, 0x00, 0x02, 0x0A, 0x00]\<rparr>
   = ([CallInvoke \<lparr>OutgoingMD = [], UserIDKey = None\<rparr> (str ''/echo'') [0x0A, 0x00]],
      Wrote (writeSuccess [0x0A, 0x00]))"
  by (simp add: forward_def Let_def decode_frame_example2 decode_frame_example3 echo_not_direct
      stub_bridge_def invoke_raw_def rawCodec_Marshal_def rawCodec_Unmarshal_def
      outgoing_context_def)


subsection \<open>Dispatch\<close>

lemma manualAuth_rejects:
  assumes "h = [] \<or> isl (ParseToken J (TrimPrefix h (str ''Bearer '')) sec)"
  shows "manualAuth J sec ctx h =
           Inl \<lparr>Code = Unauthenticated,
                Message = (if h = [] then str ''no token'' else str ''bad token'')\<rparr>"
  using assms by (auto simp: manualAuth_def Let_def isl_def)

lemma not_bootstrap:
  assumes "HasSuffix p (str ''/ListAppointments'') \<or> HasSuffix p (str ''/CreateAppointment'')
           \<or> HasSuffix p (str ''/GetAppointment'') \<or> HasSuffix p (str ''/UpdateAppointment'')
           \<or> HasSuffix p (str ''/DeleteAppointment'')"
  shows "\<not> HasSuffix p (str ''/Login'')" and "\<not> HasSuffix p (str ''/Register'')"
proof -
  have ev: "\<not> suffix (str ''/Login'') (str ''/ListAppointments'')"
    "\<not> suffix (str ''/ListAppointments'') (str ''/Login'')"
    "\<not> suffix (str ''/Login'') (str ''/CreateAppointment'')"
    "\<not> suffix (str ''/CreateAppointment'') (str ''/Login'')"
    "\<not> suffix (str ''/Login'') (str ''/GetAppointment'')"
    "\<not> suffix (str ''/GetAppointment'') (str ''/Login'')"
    "\<not> suffix (str ''/Login'') (str ''/UpdateAppointment'')"
    "\<not> suffix (str ''/UpdateAppointment'') (str ''/Login'')"
    "\<not> suffix (str ''/Login'') (str ''/DeleteAppointment'')"
    "\<not> suffix (str ''/DeleteAppointment'') (str ''/Login'')"
    "\<not> suffix (str ''/Register'') (str ''/ListAppointments'')"
    "\<not> suffix (str ''/ListAppointments'') (str ''/Register'')"
    "\<not> suffix (str ''/Register'') (str ''/CreateAppointment'')"
    "\<not> suffix (str ''/CreateAppointment'') (str ''/Register'')"
    "\<not> suffix (str ''/Register'') (str ''/GetAppointment'')"
    "\<not> suffix (str ''/GetAppointment'') (str ''/Register'')"
    "\<not> suffix (str ''/Register'') (str ''/UpdateAppointment'')"
    "\<not> suffix (str ''/UpdateAppointment'') (str ''/Register'')"
    "\<not> suffix (str ''/Register'') (str ''/DeleteAppointment'')"
    "\<not> suffix (str ''/DeleteAppointment'') (str ''/Register'')"
    by (simp_all add: str_simps suffix_to_prefix)
  show "\<not> HasSuffix p (str ''/Login'')"
    using assms ev unfolding HasSuffix_def by (meson suffix_same_cases)
  show "\<not> HasSuffix p (str ''/Register'')"
    using assms ev unfolding HasSuffix_def by (meson suffix_same_cases)
qed

text \<open>
  Claim C2. On the five direct methods other than Login and Register, a request whose
  \<^verbatim>\<open>Authorization\<close> header is absent, or whose token does not parse, is answered with an
  \<open>Unauthenticated\<close> trailer whatever its payload is, and no operation of the handler is
  called.
\<close>

theorem direct_dispatch_fails_closed:
  assumes "direct B = Some H" and "Body r = Some body" and "decode_frame body = Payload payload"
    and "HasSuffix (URLPath r) (str ''/ListAppointments'')
         \<or> HasSuffix (URLPath r) (str ''/CreateAppointment'')
         \<or> HasSuffix (URLPath r) (str ''/GetAppointment'')
         \<or> HasSuffix (URLPath r) (str ''/UpdateAppointment'')
         \<or> HasSuffix (URLPath r) (str ''/DeleteAppointment'')"
    and "HeaderGet (Authorization r) = []
         \<or> isl (ParseToken J (TrimPrefix (HeaderGet (Authorization r)) (str ''Bearer '')) (secret B))"
  shows "forward J B r =
           ([], Wrote (writeError Unauthenticated
                  (if HeaderGet (Authorization r) = [] then str ''no token'' else str ''bad token'')))"
proof -
  note rej = manualAuth_rejects [OF assms(5)]
  from not_bootstrap [OF assms(4)] assms(1-4) show ?thesis
    by (auto simp add: forward_def Let_def rej manualListAppointments_def
        manualCreateAppointment_def manualGetAppointment_def manualUpdateAppointment_def
        manualDeleteAppointment_def)
qed

theorem direct_dispatch_fails_closed_witness:
  "forward stub_jwt stub_bridge
     \<lparr>URLPath = str ''/appointment.v1.ScheduleService/GetAppointment'', Authorization = [],
      Body = Some [0x00, 0x00, 0x00, 0x00, 0x01, 0x08]\<rparr>
   = ([], Wrote (writeError Unauthenticated (str ''no token'')))
   \<and> forward stub_jwt stub_bridge
     \<lparr>URLPath = str ''/appointment.v1.ScheduleService/GetAppointment'',
      Authorization = [str ''Bearer rsa''],
      Body = Some [0x00, 0x00, 0x00, 0x00, 0x01, 0x08]\<rparr>
   = ([], Wrote (writeError Unauthenticated (str ''bad token'')))"
proof -
  have p: "HasSuffix (str ''/appointment.v1.ScheduleService/GetAppointment'') (str ''/GetAppointment'')"
    by (simp add: HasSuffix_def str_simps suffix_to_prefix)
  have t: "isl (ParseToken stub_jwt (TrimPrefix (str ''Bearer rsa'') (str ''Bearer '')) (str ''k''))"
    by (simp add: ParseToken_def ParseWithClaims_def keyfunc_def stub_jwt_def TrimPrefix_def
        HasPrefix_def str_simps)
  have a: "forward stub_jwt stub_bridge
     \<lparr>URLPath = str ''/appointment.v1.ScheduleService/GetAppointment'', Authorization = [],
      Body = Some [0x00, 0x00, 0x00, 0x00, 0x01, 0x08]\<rparr>
   = ([], Wrote (writeError Unauthenticated (str ''no token'')))"
    using direct_dispatch_fails_closed [of stub_bridge stub_handler
        "\<lparr>URLPath = str ''/appointment.v1.ScheduleService/GetAppointment'', Authorization = [],
          Body = Some [0x00, 0x00, 0x00, 0x00, 0x01, 0x08]\<rparr>"
        "[0x00, 0x00, 0x00, 0x00, 0x01, 0x08]" "[0x08]" stub_jwt]
      p decode_frame_example
    by (simp add: stub_bridge_def HeaderGet_def)
  have b: "forward stub_jwt stub_bridge
     \<lparr>URLPath = str ''/appointment.v1.ScheduleService/GetAppointment'',
      Authorization = [str ''Bearer rsa''],
      Body = Some [0x00, 0x00, 0x00, 0x00, 0x01, 0x08]\<rparr>
   = ([], Wrote (writeError Unauthenticated (str ''bad token'')))"
    using direct_dispatch_fails_closed [of stub_bridge stub_handler
        "\<lparr>URLPath = str ''/appointment.v1.ScheduleService/GetAppointment'',
          Authorization = [str ''Bearer rsa''],
          Body = Some [0x00, 0x00, 0x00, 0x00, 0x01, 0x08]\<rparr>"
        "[0x00, 0x00, 0x00, 0x00, 0x01, 0x08]" "[0x08]" stub_jwt]
      p t decode_frame_example
    by (simp add: stub_bridge_def HeaderGet_def str_simps)
  from a b show ?thesis by simp
qed

lemma forward_opaque:
  assumes "Body r = Some body" and "decode_frame body = Payload payload"
    and "\<forall>m \<in> set direct_methods. \<not> HasSuffix (URLPath r) m"
  shows "forward J B r = invoke_raw B (outgoing_context (Authorization r)) (URLPath r) payload"
  using assms by (cases "direct B") (simp_all add: forward_def Let_def direct_methods_def)

lemma decimal_12: "decimal 12 = str ''12''"
  by (simp add: decimal.simps str_simps)

text \<open>
  Claim C6. For a path that ends in none of the seven suffixes of the direct path, the
  payload of the frame goes unchanged to the backend, under the same path and with the
  values of the \<^verbatim>\<open>Authorization\<close> header in the metadata. The bytes the backend returns
  are written unchanged in a data frame (flag \<open>0x00\<close>, length, bytes) followed by the
  trailer frame (flag \<open>0x80\<close>) with the status line \<open>grpc-status:0\<close>; when the call
  fails, its code and message are written in a single trailer frame, as the status line
  and the message line. Both responses have HTTP status 200.
\<close>

theorem opaque_forwarding:
  assumes "Body r = Some body" and "decode_frame body = Payload payload"
    and "\<forall>m \<in> set direct_methods. \<not> HasSuffix (URLPath r) m"
  shows "forward J B r =
           (case conn B (outgoing_context (Authorization r)) (URLPath r) payload of
              Inl st \<Rightarrow>
                ([CallInvoke (outgoing_context (Authorization r)) (URLPath r) payload],
                 Wrote \<lparr>StatusCode = 200, ContentType = str ''application/grpc-web+proto'',
                        ResponseBody =
                          0x80 # PutUint32 (of_nat (length
                                   (str ''grpc-status:'' @ decimal (Code st) @ CRLF
                                    @ str ''grpc-message:'' @ Message st @ CRLF)))
                            @ (str ''grpc-status:'' @ decimal (Code st) @ CRLF
                               @ str ''grpc-message:'' @ Message st @ CRLF)\<rparr>)
            | Inr data \<Rightarrow>
                ([CallInvoke (outgoing_context (Authorization r)) (URLPath r) payload],
                 Wrote \<lparr>StatusCode = 200, ContentType = str ''application/grpc-web+proto'',
                        ResponseBody =
                          (0x00 # PutUint32 (of_nat (length data)) @ data)
                          @ (0x80 # PutUint32 15 @ str ''grpc-status:0'' @ CRLF)\<rparr>))
         \<and> OutgoingMD (outgoing_context (Authorization r)) =
             (if Authorization r = [] then [] else [(str ''authorization'', Authorization r)])"
proof -
  have "forward J B r = invoke_raw B (outgoing_context (Authorization r)) (URLPath r) payload"
    using assms by (rule forward_opaque)
  moreover have "OutgoingMD (outgoing_context (Authorization r)) =
      (if Authorization r = [] then [] else [(str ''authorization'', Authorization r)])"
    by (simp add: outgoing_context_def)
  ultimately show ?thesis
    by (simp add: invoke_raw_def rawCodec_Marshal_def rawCodec_Unmarshal_def
        writeSuccess_record writeError_record split: sum.splits)
qed

theorem opaque_forwarding_witness:
  "forward stub_jwt stub_bridge
     \<lparr>URLPath = str ''/echo'', Authorization = [str ''Bearer abc''],
      Body = Some [0x00, 0x00, 0x00, 0x00, 0x02, 0x0A, 0x00]\<rparr>
   = ([CallInvoke \<lparr>OutgoingMD = [(str ''authorization'', [str ''Bearer abc''])], UserIDKey = None\<rparr>
         (str ''/echo'') [0x0A, 0x00]],
      Wrote \<lparr>StatusCode = 200, ContentType = str ''application/grpc-web+proto'',
             ResponseBody = [0x00, 0x00, 0x00, 0x00, 0x02, 0x0A, 0x00, 0x80, 0x00, 0x00, 0x00, 0x0F]
                            @ str ''grpc-status:0'' @ CRLF\<rparr>)
   \<and> forward stub_jwt stub_bridge
     \<lparr>URLPath = str ''/other'', Authorization = [],
      Body = Some [0x00, 0x00, 0x00, 0x00, 0x02, 0x0A, 0x00]\<rparr>
   = ([CallInvoke \<lparr>OutgoingMD = [], UserIDKey = None\<rparr> (str ''/other'') [0x0A, 0x00]],
      Wrote \<lparr>StatusCode = 200, ContentType = str ''application/grpc-web+proto'',
             ResponseBody = [0x80, 0x00, 0x00, 0x00, 0x2D] @ str ''grpc-status:12'' @ CRLF
                            @ str ''grpc-message:unknown method'' @ CRLF\<rparr>)"
proof -
  have e: "\<forall>m \<in> set direct_methods. \<not> HasSuffix (str ''/echo'') m"
    "\<forall>m \<in> set direct_methods. \<not> HasSuffix (str ''/other'') m"
    by (simp_all add: direct_methods_def HasSuffix_def str_simps suffix_to_prefix)
  have a: "forward stub_jwt stub_bridge
     \<lparr>URLPath = str ''/echo'', Authorization = [str ''Bearer abc''],
      Body = Some [0x00, 0x00, 0x00, 0x00, 0x02, 0x0A, 0x00]\<rparr>
   = ([CallInvoke \<lparr>OutgoingMD = [(str ''authorization'', [str ''Bearer abc''])], UserIDKey = None\<rparr>
         (str ''/echo'') [0x0A, 0x00]],
      Wrote \<lparr>StatusCode = 200, ContentType = str ''application/grpc-web+proto'',
             ResponseBody = [0x00, 0x00, 0x00, 0x00, 0x02, 0x0A, 0x00, 0x80, 0x00, 0x00, 0x00, 0x0F]
                            @ str ''grpc-status:0'' @ CRLF\<rparr>)"
    using opaque_forwarding [of
        "\<lparr>URLPath = str ''/echo'', Authorization = [str ''Bearer abc''],
          Body = Some [0x00, 0x00, 0x00, 0x00, 0x02, 0x0A, 0x00]\<rparr>"
        "[0x00, 0x00, 0x00, 0x00, 0x02, 0x0A, 0x00]" "[0x0A, 0x00]" stub_jwt stub_bridge]
      e decode_frame_example2
    by (simp add: stub_bridge_def outgoing_context_def PutUint32_def)
  have b: "forward stub_jwt stub_bridge
     \<lparr>URLPath = str ''/other'', Authorization = [],
      Body = Some [0x00, 0x00, 0x00, 0x00, 0x02, 0x0A, 0x00]\<rparr>
   = ([CallInvoke \<lparr>OutgoingMD = [], UserIDKey = None\<rparr> (str ''/other'') [0x0A, 0x00]],
      Wrote \<lparr>StatusCode = 200, ContentType = str ''application/grpc-web+proto'',
             ResponseBody = [0x80, 0x00, 0x00, 0x00, 0x2D] @ str ''grpc-status:12'' @ CRLF
                            @ str ''grpc-message:unknown method'' @ CRLF\<rparr>)"
    using opaque_forwarding [of
        "\<lparr>URLPath = str ''/other'', Authorization = [],
          Body = Some [0x00, 0x00, 0x00, 0x00, 0x02, 0x0A, 0x00]\<rparr>"
        "[0x00, 0x00, 0x00, 0x00, 0x02, 0x0A, 0x00]" "[0x0A, 0x00]" stub_jwt stub_bridge]
      e decode_frame_example2
    by (simp add: stub_bridge_def outgoing_context_def str_simps decimal_12 CRLF_def PutUint32_def)
  from a b show ?thesis by simp
qed

subsection \<open>Credentials\<close>

lemma TrimPrefix_absent: "\<not> HasPrefix h p \<Longrightarrow> TrimPrefix h p = h"
  by (simp add: TrimPrefix_def)

lemma TrimPrefix_present: "TrimPrefix (p @ h) p = h"
  by (simp add: TrimPrefix_def HasPrefix_def)

lemma ParseToken_good: "ParseToken stub_jwt (str ''good'') (str ''k'')
    = Inr \<lparr>UserID = str ''u1'', ExpiresAt = 0, IssuedAt = 0\<rparr>"
  by (simp add: ParseToken_def ParseWithClaims_def keyfunc_def stub_jwt_def)

lemma keyfunc_non_HMAC: "Method tok \<noteq> SigningMethodHMAC \<Longrightarrow> keyfunc sec tok = Inl ErrBadToken"
  by (simp add: keyfunc_def)

text \<open>
  Claim C10. \<^verbatim>\<open>manualAuth\<close> accepts a header without the \<open>Bearer\<close> prefix: a header
  that is not empty and does not start with the prefix authenticates exactly as the
  prefix followed by that header does, and when the header is itself a valid token both
  give the context with the token's user. \<^verbatim>\<open>manualAuth\<close> fails only for an empty header
  or for a token (the header without the prefix) that \<^verbatim>\<open>ParseToken\<close> rejects.
\<close>

theorem bearer_prefix_optional:
  "(h \<noteq> [] \<and> \<not> HasPrefix h (str ''Bearer '')
      \<longrightarrow> manualAuth J sec ctx h = manualAuth J sec ctx (str ''Bearer '' @ h))
   \<and> (h \<noteq> [] \<and> \<not> HasPrefix h (str ''Bearer '') \<and> ParseToken J h sec = Inr c
      \<longrightarrow> manualAuth J sec ctx h = Inr (ctx\<lparr>UserIDKey := Some (UserID c)\<rparr>)
          \<and> manualAuth J sec ctx (str ''Bearer '' @ h) = Inr (ctx\<lparr>UserIDKey := Some (UserID c)\<rparr>))
   \<and> (isl (manualAuth J sec ctx h)
      \<longleftrightarrow> h = [] \<or> isl (ParseToken J (TrimPrefix h (str ''Bearer '')) sec))"
proof -
  have b: "str ''Bearer '' @ h \<noteq> []" by (simp add: str_simps)
  have 1: "manualAuth J sec ctx h = manualAuth J sec ctx (str ''Bearer '' @ h)"
    if "h \<noteq> []" "\<not> HasPrefix h (str ''Bearer '')"
    using that b by (simp add: manualAuth_def Let_def TrimPrefix_absent TrimPrefix_present)
  have 2: "manualAuth J sec ctx h = Inr (ctx\<lparr>UserIDKey := Some (UserID c)\<rparr>)"
    if "h \<noteq> []" "\<not> HasPrefix h (str ''Bearer '')" "ParseToken J h sec = Inr c"
    using that by (simp add: manualAuth_def Let_def TrimPrefix_absent)
  have 3: "isl (manualAuth J sec ctx h)
      \<longleftrightarrow> h = [] \<or> isl (ParseToken J (TrimPrefix h (str ''Bearer '')) sec)"
    by (auto simp: manualAuth_def Let_def isl_def split: sum.splits)
  from 1 2 3 show ?thesis by metis
qed

theorem bearer_prefix_optional_witness:
  "manualAuth stub_jwt (str ''k'') \<lparr>OutgoingMD = [], UserIDKey = None\<rparr> (str ''good'')
     = Inr \<lparr>OutgoingMD = [], UserIDKey = Some (str ''u1'')\<rparr>
   \<and> manualAuth stub_jwt (str ''k'') \<lparr>OutgoingMD = [], UserIDKey = None\<rparr> (str ''Bearer good'')
     = Inr \<lparr>OutgoingMD = [], UserIDKey = Some (str ''u1'')\<rparr>"
proof -
  have "str ''good'' \<noteq> []" "\<not> HasPrefix (str ''good'') (str ''Bearer '')"
    by (simp_all add: str_simps HasPrefix_def)
  with bearer_prefix_optional [of "str ''good''" stub_jwt "str ''k''"
      "\<lparr>OutgoingMD = [], UserIDKey = None\<rparr>" "\<lparr>UserID = str ''u1'', ExpiresAt = 0, IssuedAt = 0\<rparr>"]
    ParseToken_good
  show ?thesis by (simp add: str_simps)
qed

text \<open>
  Claim C5. A token that the library parses to a signing method other than HMAC (or
  does not parse at all) is rejected by \<^verbatim>\<open>ParseToken\<close> with an error whatever the
  secret is, and a header that carries it gets \<open>Unauthenticated\<close> from \<^verbatim>\<open>manualAuth\<close>,
  never a call context.
\<close>

theorem non_HMAC_token_rejected:
  assumes "\<forall>tok. ParseUnverified J raw = Inr tok \<longrightarrow> Method tok \<noteq> SigningMethodHMAC"
  shows "isl (ParseToken J raw sec)
         \<and> (TrimPrefix h (str ''Bearer '') = raw \<longrightarrow>
              (\<exists>st. manualAuth J sec ctx h = Inl st \<and> Code st = Unauthenticated))"
proof -
  have p: "isl (ParseToken J raw sec)"
  proof (cases "ParseUnverified J raw")
    case (Inl e)
    then show ?thesis by (simp add: ParseToken_def ParseWithClaims_def)
  next
    case (Inr tok)
    with assms have "keyfunc sec tok = Inl ErrBadToken" by (simp add: keyfunc_non_HMAC)
    with Inr show ?thesis by (simp add: ParseToken_def ParseWithClaims_def)
  qed
  then show ?thesis
    by (auto simp: manualAuth_def Let_def isl_def)
qed

theorem non_HMAC_token_rejected_witness:
  "isl (ParseToken stub_jwt (str ''rsa'') (str ''k''))
   \<and> (\<exists>st. manualAuth stub_jwt (str ''k'') \<lparr>OutgoingMD = [], UserIDKey = None\<rparr> (str ''Bearer rsa'') = Inl st
          \<and> Code st = Unauthenticated)"
proof -
  have "\<forall>tok. ParseUnverified stub_jwt (str ''rsa'') = Inr tok \<longrightarrow> Method tok \<noteq> SigningMethodHMAC"
    by (auto simp add: stub_jwt_def str_simps)
  moreover have "TrimPrefix (str ''Bearer rsa'') (str ''Bearer '') = str ''rsa''"
    by (simp add: TrimPrefix_def HasPrefix_def str_simps)
  ultimately show ?thesis
    using non_HMAC_token_rejected [of stub_jwt "str ''rsa''" "str ''k''" "str ''Bearer rsa''"
        "\<lparr>OutgoingMD = [], UserIDKey = None\<rparr>"]
    by simp
qed

subsection \<open>Payloads that do not parse\<close>

lemma ConsumeTag_0A: "ConsumeTag (0x0A # rest) = (1, BytesType, 1)"
  by (simp add: ConsumeTag_def ConsumeVarint_def DecodeTag_def Type_of_def)

lemma ConsumeTag_08: "ConsumeTag (0x08 # rest) = (1, VarintType, 1)"
  by (simp add: ConsumeTag_def ConsumeVarint_def DecodeTag_def Type_of_def)

lemma ConsumeBytes_truncated: "ConsumeBytes [0x05] = ([], -1)"
  by (simp add: ConsumeBytes_def ConsumeVarint_def errCodeTruncated_def)

lemma ConsumeFieldValue_truncated: "ConsumeFieldValue 1 VarintType [] = -1"
  by (simp add: ConsumeFieldValue_def consumeFieldValueD.simps ConsumeVarint_def errCodeTruncated_def)

lemma decode_Login_panics:
  "decode_loop LoginRequest_fields True \<lparr>login_Email = [], login_Password = []\<rparr> [0x0A, 0x05] = Panic"
  by (simp add: decode_loop.simps ConsumeTag_0A ConsumeBytes_truncated slice_from_def
      LoginRequest_fields_def)

lemma decode_Get_panics:
  "decode_loop GetAppointmentRequest_fields False \<lparr>get_Id = []\<rparr> [0x08] = Panic"
  by (simp add: decode_loop.simps ConsumeTag_08 ConsumeFieldValue_truncated slice_from_def
      GetAppointmentRequest_fields_def)

lemma decode_Login_unknown_checked:
  "decode_loop LoginRequest_fields True \<lparr>login_Email = [], login_Password = []\<rparr> [0x08] = ParseError"
  by (simp add: decode_loop.simps ConsumeTag_08 ConsumeFieldValue_truncated slice_from_def
      LoginRequest_fields_def)

lemma decode_frame_login_bad:
  "decode_frame [0x00, 0x00, 0x00, 0x00, 0x02, 0x0A, 0x05] = Payload [0x0A, 0x05]"
  by (simp add: decode_frame_def Let_def Uint32_def slice_between_def)

lemma Login_path: "HasSuffix (str ''/appointment.v1.ScheduleService/Login'') (str ''/Login'')"
  by (simp add: HasSuffix_def str_simps suffix_to_prefix)

lemma Get_path:
  "\<not> HasSuffix (str ''/appointment.v1.ScheduleService/GetAppointment'') (str ''/Login'')"
  "\<not> HasSuffix (str ''/appointment.v1.ScheduleService/GetAppointment'') (str ''/Register'')"
  "\<not> HasSuffix (str ''/appointment.v1.ScheduleService/GetAppointment'') (str ''/ListAppointments'')"
  "\<not> HasSuffix (str ''/appointment.v1.ScheduleService/GetAppointment'') (str ''/CreateAppointment'')"
  "HasSuffix (str ''/appointment.v1.ScheduleService/GetAppointment'') (str ''/GetAppointment'')"
  by (simp_all add: HasSuffix_def str_simps suffix_to_prefix)

lemma manualAuth_good:
  "manualAuth stub_jwt (str ''k'') ctx (str ''Bearer good'') = Inr (ctx\<lparr>UserIDKey := Some (str ''u1'')\<rparr>)"
  by (simp add: manualAuth_def Let_def TrimPrefix_def HasPrefix_def str_simps
      ParseToken_def ParseWithClaims_def keyfunc_def stub_jwt_def)

text \<open>
  Claim C1 does not hold of the code. A Login payload whose field 1 claims five bytes and
  has none makes \<^verbatim>\<open>manualLogin\<close> slice with the negative result of \<^verbatim>\<open>ConsumeBytes\<close>,
  and a GetAppointment payload with a truncated unknown value makes
  \<^verbatim>\<open>manualGetAppointment\<close> slice with the negative result of \<^verbatim>\<open>ConsumeFieldValue\<close>:
  both runs panic and write no trailer. The same truncated unknown value in a Login
  payload is answered with the \<open>InvalidArgument\<close> trailer, as the claim says, because
  that branch of \<^verbatim>\<open>manualLogin\<close> tests the sign.
\<close>

theorem truncated_value_panics:
  "forward stub_jwt stub_bridge
     \<lparr>URLPath = str ''/appointment.v1.ScheduleService/Login'', Authorization = [],
      Body = Some [0x00, 0x00, 0x00, 0x00, 0x02, 0x0A, 0x05]\<rparr> = ([], Panicked)
   \<and> forward stub_jwt stub_bridge
     \<lparr>URLPath = str ''/appointment.v1.ScheduleService/GetAppointment'',
      Authorization = [str ''Bearer good''],
      Body = Some [0x00, 0x00, 0x00, 0x00, 0x01, 0x08]\<rparr> = ([], Panicked)
   \<and> forward stub_jwt stub_bridge
     \<lparr>URLPath = str ''/appointment.v1.ScheduleService/Login'', Authorization = [],
      Body = Some [0x00, 0x00, 0x00, 0x00, 0x01, 0x08]\<rparr>
     = ([], Wrote (writeError InvalidArgument (str ''parse error'')))"
  by (simp add: forward_def Let_def decode_frame_login_bad decode_frame_example Login_path Get_path
      stub_bridge_def manualLogin_def manualGetAppointment_def decode_Login_panics
      decode_Get_panics decode_Login_unknown_checked HeaderGet_def manualAuth_good)

subsection \<open>The shape of every response\<close>





































subsection \<open>What the encoders write\<close>

lemma tag_bytes:
  "varint (unat (EncodeTag (Suc 0) BytesType)) = [0x0A]"
  "varint (unat (EncodeTag 2 BytesType)) = [0x12]"
  "varint (unat (EncodeTag 3 BytesType)) = [0x1A]"
  "varint (unat (EncodeTag 4 BytesType)) = [0x22]"
  "varint (unat (EncodeTag 5 BytesType)) = [0x2A]"
  "varint (unat (EncodeTag 6 BytesType)) = [0x32]"
  "varint (unat (EncodeTag 7 BytesType)) = [0x3A]"
  "varint (unat (EncodeTag 8 BytesType)) = [0x42]"
  "varint (unat (EncodeTag 9 BytesType)) = [0x4A]"
  "varint (unat (EncodeTag 10 BytesType)) = [0x52]"
  "varint (unat (EncodeTag 11 BytesType)) = [0x5A]"
  "varint (unat (EncodeTag (Suc 0) VarintType)) = [0x08]"
  "varint (unat (EncodeTag 2 VarintType)) = [0x10]"
  by (simp_all add: EncodeTag_def varint.simps)

lemma varint_zero: "varint 0 = [0x00]"
  by (simp add: varint.simps)

lemma appendTimestamp_append:
  "b \<noteq> [] \<Longrightarrow> appendTimestamp b num ts = b @ appendTimestamp [] num ts"
  by (cases ts)
    (simp_all add: appendTimestamp_def Let_def AppendBytes_def AppendTag_def AppendVarint_def)

lemma appendTimestamp_Some:
  "appendTimestamp out num (Some t) =
     out @ AppendTag [] num BytesType
       @ AppendBytes []
           ((if Seconds t = 0 then [] else 0x08 # varint (unat (Seconds t)))
            @ (if Nanos t = 0 then [] else 0x10 # varint (unat (scast (Nanos t) :: 64 word))))"
  by (simp add: appendTimestamp_def Let_def AppendBytes_def AppendTag_def AppendVarint_def tag_bytes)

lemma attendees_foldl:
  "foldl (\<lambda>inner att. AppendString (AppendTag inner 9 BytesType) att) inner xs =
     inner @ concat (map (\<lambda>att. 0x4A # AppendString [] att) xs)"
proof (induction xs arbitrary: inner)
  case Nil
  show ?case by simp
next
  case (Cons x xs)
  have "AppendString (AppendTag inner 9 BytesType) x = inner @ 0x4A # AppendString [] x"
    by (simp add: AppendString_def AppendTag_def AppendVarint_def tag_bytes)
  with Cons.IH [of "inner @ 0x4A # AppendString [] x"] show ?case by simp
qed

lemma appendAppointment_Some:
  "appendAppointment out num (Some a) =
     out @ AppendTag [] num BytesType
       @ AppendBytes []
           (0x0A # AppendString [] (Id a)
            @ 0x12 # AppendString [] (Title a)
            @ 0x1A # AppendString [] (Description a)
            @ appendTimestamp [] 4 (StartTime a)
            @ appendTimestamp [] 5 (EndTime a)
            @ 0x32 # AppendString [] (UserId a)
            @ 0x3A # AppendString [] (Status a)
            @ 0x42 # AppendString [] (Location a)
            @ concat (map (\<lambda>att. 0x4A # AppendString [] att) (AttendeeIds a))
            @ appendTimestamp [] 10 (CreatedAt a)
            @ appendTimestamp [] 11 (UpdatedAt a))"
  unfolding appendAppointment_def Let_def option.case attendees_foldl
  by (simp add: AppendTag_def AppendVarint_def AppendBytes_def AppendString_def tag_bytes
      appendTimestamp_append)

text \<open>
  Claim C8, as amended. A timestamp that is nil adds no bytes, and one that is present
  is written as a length-delimited submessage in which the seconds (inner field 1) and
  the nanoseconds (inner field 2) are each left out exactly when they are zero. The
  string fields of an appointment, of the Login response and of the Register response
  are always written, tag and length first, also when the string is empty (the tag is
  then followed by the length 0); each attendee id is written as one more field 9; an
  appointment that is nil adds no bytes.
\<close>

theorem encoder_omission:
  "appendTimestamp out num None = out
   \<and> appendTimestamp out num (Some t) =
       out @ AppendTag [] num BytesType
         @ AppendBytes []
             ((if Seconds t = 0 then [] else 0x08 # varint (unat (Seconds t)))
              @ (if Nanos t = 0 then [] else 0x10 # varint (unat (scast (Nanos t) :: 64 word))))
   \<and> appendAppointment out num None = out
   \<and> appendAppointment out num (Some a) =
       out @ AppendTag [] num BytesType
         @ AppendBytes []
             (0x0A # AppendString [] (Id a)
              @ 0x12 # AppendString [] (Title a)
              @ 0x1A # AppendString [] (Description a)
              @ appendTimestamp [] 4 (StartTime a)
              @ appendTimestamp [] 5 (EndTime a)
              @ 0x32 # AppendString [] (UserId a)
              @ 0x3A # AppendString [] (Status a)
              @ 0x42 # AppendString [] (Location a)
              @ concat (map (\<lambda>att. 0x4A # AppendString [] att) (AttendeeIds a))
              @ appendTimestamp [] 10 (CreatedAt a)
              @ appendTimestamp [] 11 (UpdatedAt a))
   \<and> AppendString [] [] = [0x00]
   \<and> encodeLoginResponse resp =
       0x0A # AppendString [] (login_Token resp)
       @ 0x12 # AppendString [] (login_UserId resp)
       @ 0x1A # AppendString [] (login_Name resp)
   \<and> encodeRegisterResponse rresp =
       0x0A # AppendString [] (register_UserId rresp)
       @ 0x12 # AppendString [] (register_Token rresp)"
proof -
  have "appendTimestamp out num None = out" "appendAppointment out num None = out"
    by (simp_all add: appendTimestamp_def appendAppointment_def)
  moreover have "AppendString [] [] = [0x00]"
    by (simp add: AppendString_def AppendVarint_def varint_zero)
  moreover have "encodeLoginResponse resp =
       0x0A # AppendString [] (login_Token resp)
       @ 0x12 # AppendString [] (login_UserId resp)
       @ 0x1A # AppendString [] (login_Name resp)"
    by (simp add: encodeLoginResponse_def Let_def AppendString_def AppendTag_def AppendVarint_def
        tag_bytes)
  moreover have "encodeRegisterResponse rresp =
       0x0A # AppendString [] (register_UserId rresp)
       @ 0x12 # AppendString [] (register_Token rresp)"
    by (simp add: encodeRegisterResponse_def Let_def AppendString_def AppendTag_def
        AppendVarint_def tag_bytes)
  ultimately show ?thesis
    using appendTimestamp_Some [of out num t] appendAppointment_Some [of out num a] by blast
qed

text \<open>
  Claim C8 as stated fails for the string fields. An appointment whose strings are all
  empty is written with its six string fields, each a tag and the length 0, and a Login
  response with an empty name ends with the tag of field 3 and the length 0.
\<close>

theorem encoder_omission_counterexample:
  "appendAppointment [] 1
     (Some \<lparr>Id = [], Title = [], Description = [], StartTime = None, EndTime = None,
            UserId = [], Status = [], Location = [], AttendeeIds = [], CreatedAt = None,
            UpdatedAt = None\<rparr>)
   = [0x0A, 0x0C, 0x0A, 0x00, 0x12, 0x00, 0x1A, 0x00, 0x32, 0x00, 0x3A, 0x00, 0x42, 0x00]
   \<and> encodeLoginResponse \<lparr>login_Token = str ''abc'', login_UserId = str ''u1'', login_Name = []\<rparr>
   = [0x0A, 0x03, 0x61, 0x62, 0x63, 0x12, 0x02, 0x75, 0x31, 0x1A, 0x00]"
proof -
  have v: "varint 12 = [0x0C]" "varint 3 = [0x03]" "varint 2 = [0x02]"
    by (simp_all add: varint.simps)
  show ?thesis
    by (simp add: appendAppointment_def appendTimestamp_def encodeLoginResponse_def Let_def
        AppendTag_def AppendVarint_def AppendBytes_def AppendString_def tag_bytes varint_zero v
        str_simps)
qed

end
